theory Spec2Isabelle
  imports Main "HOL-Library.Word"
begin

unbundle bit_operations_syntax

section \<open>Data model of \<open>trader/api_utils.go\<close>\<close>

text \<open>
  Go's \<open>error\<close> values are opaque text here: every error the package builds itself comes
  from \<open>fmt.Errorf\<close>, and the library's errors are only passed on. A \<open>float32\<close> is its
  IEEE 754 binary32 bit pattern. A Go slice is a list (the nil slice is the empty list: the
  code only takes \<open>len\<close> and indexes). A returned pair \<open>(*T, error)\<close> is a pair of options,
  \<open>None\<close> being \<open>nil\<close>.
\<close>

type_synonym error = string
type_synonym float32 = "32 word"

record Credentials =
  AccountID :: string
  BearerToken :: string

text \<open>The two anonymous structs nested in \<open>RawPricingResponse\<close>: a price level and an entry
  of \<open>Prices\<close>.\<close>

record RawLevel =
  level_Price :: float32

record RawPrice =
  raw_Instrument :: string
  raw_Tradeable :: bool
  Bids :: "RawLevel list"
  Asks :: "RawLevel list"

record RawPricingResponse =
  raw_Time :: string
  raw_Prices :: "RawPrice list"

record Price =
  Instrument :: string
  Tradeable :: bool
  Bid :: float32
  Ask :: float32

record PricingResponse =
  Time :: string
  Prices :: "Price list"

section \<open>\<open>parseRawResponse\<close>\<close>

text \<open>The zero value \<open>Price{}\<close> that \<open>make([]Price, n)\<close> fills the slice with.\<close>

definition zero_Price :: Price where
  "zero_Price = \<lparr>Instrument = [], Tradeable = False, Bid = 0, Ask = 0\<rparr>"

text \<open>
  \<open>parseRawResponse\<close> takes the struct behind its pointer argument: its one caller,
  \<open>getPrices\<close>, passes the address of a local variable, which is never nil.

  The body of \<open>for i, rawPrice := range rawResponse.Prices\<close>: \<open>i\<close> is the loop index,
  the first list is what remains to be ranged over, the second is \<open>response.Prices\<close>.
  A \<open>return nil, err\<close> inside the loop is \<open>Inl err\<close>.
\<close>

fun parse_loop :: "nat \<Rightarrow> RawPrice list \<Rightarrow> Price list \<Rightarrow> error + Price list" where
  "parse_loop i [] prices = Inr prices"
| "parse_loop i (rawPrice # rest) prices =
     (let price = \<lparr>Instrument = raw_Instrument rawPrice, Tradeable = raw_Tradeable rawPrice,
                    Bid = 0, Ask = 0\<rparr>
      in case Bids rawPrice of
           [] \<Rightarrow> Inl ''No bid prices recieved.''
         | bid0 # _ \<Rightarrow>
             (let price = price\<lparr>Bid := level_Price bid0\<rparr>
              in case Asks rawPrice of
                   [] \<Rightarrow> Inl ''No ask prices recieved.''
                 | ask0 # _ \<Rightarrow>
                     (let price = price\<lparr>Ask := level_Price ask0\<rparr>
                      in parse_loop (Suc i) rest (prices[i := price]))))"

definition parseRawResponse :: "RawPricingResponse \<Rightarrow> PricingResponse option \<times> error option" where
  "parseRawResponse rawResponse =
     (let response = \<lparr>Time = raw_Time rawResponse,
                       Prices = replicate (length (raw_Prices rawResponse)) zero_Price\<rparr>
      in case parse_loop 0 (raw_Prices rawResponse) (Prices response) of
           Inl err \<Rightarrow> (None, Some err)
         | Inr prices \<Rightarrow> (Some (response\<lparr>Prices := prices\<rparr>), None))"

text \<open>What one well-formed raw entry is reshaped into, and the entries that are well formed.\<close>

definition complete_entry :: "RawPrice \<Rightarrow> bool" where
  "complete_entry rawPrice \<longleftrightarrow> Bids rawPrice \<noteq> [] \<and> Asks rawPrice \<noteq> []"

section \<open>Library functions the package calls\<close>

subsection \<open>\<open>strings.Join\<close> and \<open>strings.Replace\<close>\<close>

fun strings_Join :: "string list \<Rightarrow> string \<Rightarrow> string" where
  "strings_Join [] sep = []"
| "strings_Join [x] sep = x"
| "strings_Join (x # y # ys) sep = x @ sep @ strings_Join (y # ys) sep"

text \<open>\<open>strings.Replace(s, old, new, 1)\<close>: the first occurrence of \<open>old\<close> in \<open>s\<close> is replaced by
  \<open>new\<close>; without an occurrence \<open>s\<close> is returned as it is.\<close>

fun strings_Replace1 :: "string \<Rightarrow> string \<Rightarrow> string \<Rightarrow> string" where
  "strings_Replace1 [] old new = (if old = [] then new else [])"
| "strings_Replace1 (c # cs) old new =
     (if take (length old) (c # cs) = old then new @ drop (length old) (c # cs)
      else c # strings_Replace1 cs old new)"

subsection \<open>\<open>fmt.Sprintf\<close> with the verbs \<open>%d\<close> and \<open>%.5f\<close>\<close>

definition digit :: "nat \<Rightarrow> char" where
  "digit d = ''0123456789'' ! d"

fun decimal :: "nat \<Rightarrow> string" where
  "decimal n = (if n < 10 then [digit n] else decimal (n div 10) @ [digit (n mod 10)])"

declare decimal.simps [simp del]

text \<open>\<open>%d\<close> of a Go \<open>int\<close>: a minus sign for a negative number, then the decimal digits. The
  package does no arithmetic on these integers, so they are unbounded here.\<close>

definition Sprintf_d :: "int \<Rightarrow> string" where
  "Sprintf_d i = (if i < 0 then CHR ''-'' # decimal (nat (- i)) else decimal (nat i))"

text \<open>
  The fields of a binary32 bit pattern, as \<open>strconv\<close> reads them: the sign bit, the 8-bit
  biased exponent and the 23-bit mantissa.
\<close>

definition f32_neg :: "float32 \<Rightarrow> bool" where
  "f32_neg f = bit f 31"

definition f32_exp :: "float32 \<Rightarrow> nat" where
  "f32_exp f = unat (drop_bit 23 f AND 0xFF)"

definition f32_mant :: "float32 \<Rightarrow> nat" where
  "f32_mant f = unat (f AND 0x7FFFFF)"

text \<open>The quotient \<open>num / den\<close> rounded to the nearest integer, a tie going to the even one.\<close>

definition round_half_even :: "nat \<Rightarrow> nat \<Rightarrow> nat" where
  "round_half_even num den =
     (let q = num div den; r = num mod den
      in if den < 2 * r \<or> (2 * r = den \<and> odd q) then q + 1 else q)"

text \<open>
  \<open>%.5f\<close> of a \<open>float32\<close>. An all-ones exponent is \<open>NaN\<close>, \<open>+Inf\<close> or \<open>-Inf\<close>. Otherwise the
  value is \<open>m * 2 ^ (e - 150)\<close>, with the implicit leading bit added to the mantissa of a
  normal number and the exponent of a denormal read as 1. \<open>strconv\<close> expands it to its exact
  decimal digits and rounds them after the fifth decimal place, half to even; \<open>scaled\<close> is
  that rounded value in units of \<open>10 ^ -5\<close>. The sign is printed for every negative pattern,
  negative zero included.
\<close>

definition Sprintf_5f :: "float32 \<Rightarrow> string" where
  "Sprintf_5f f =
     (let neg = f32_neg f; exp = f32_exp f; mant = f32_mant f
      in if exp = 255 then (if mant \<noteq> 0 then ''NaN'' else if neg then ''-Inf'' else ''+Inf'')
         else
           (let m = (if exp = 0 then mant else mant + 2 ^ 23);
                e = (if exp = 0 then 1 else exp);
                scaled = (if 150 \<le> e then m * 2 ^ (e - 150) * 10 ^ 5
                          else round_half_even (m * 10 ^ 5) (2 ^ (150 - e)));
                frac = decimal (scaled mod 10 ^ 5)
            in (if neg then ''-'' else []) @ decimal (scaled div 10 ^ 5) @ ''.'' @
               replicate (5 - length frac) CHR ''0'' @ frac))"

section \<open>Requests, responses and the outside world\<close>

record MarketOrder =
  Units :: string
  order_Instrument :: string
  PriceBound :: string
  TimeInForce :: string
  order_Type :: string
  PositionFill :: string

record MarketOrderRequest =
  Order :: MarketOrder

record TradeOpened =
  TradeID :: string
  opened_Units :: string

record OrderCreateTransaction =
  create_AccountID :: string
  create_BatchID :: string
  create_ID :: string
  create_Instrument :: string
  create_PositionFill :: string
  create_Reason :: string
  create_Time :: string
  create_TimeInForce :: string
  create_Type :: string
  create_Units :: string
  create_UserID :: int

record OrderFillTransaction =
  AccountBalance :: string
  fill_AccountID :: string
  fill_BatchID :: string
  Financing :: string
  fill_ID :: string
  fill_Instrument :: string
  OrderID :: string
  Pl :: string
  fill_Price :: string
  fill_Reason :: string
  fill_Time :: string
  fill_TradeOpened :: TradeOpened
  fill_Type :: string
  fill_Units :: string
  fill_UserID :: int

record OrderResponse =
  LastTransactionID :: string
  OrderCreateTransaction :: OrderCreateTransaction
  OrderFillTransaction :: OrderFillTransaction
  RelatedTransactionIDs :: "string list"

definition baseURL :: string where
  "baseURL = ''https://api-fxpractice.oanda.com''"

definition pricingEndpoint :: string where
  "pricingEndpoint = ''/v3/accounts/{accountID}/pricing''"

definition orderEndpoint :: string where
  "orderEndpoint = ''/v3/accounts/{accountID}/orders''"

text \<open>
  \<open>url.Values\<close> maps a key to its list of values, a missing key to the nil slice;
  \<open>Values.Add\<close> is \<open>v[key] = append(v[key], value)\<close>.
\<close>

type_synonym Values = "string \<Rightarrow> string list"

definition Values_Add :: "Values \<Rightarrow> string \<Rightarrow> string \<Rightarrow> Values" where
  "Values_Add v key val = v(key := v key @ [val])"

text \<open>
  An \<open>http.Request\<close> as the package builds it: the method and the URL string given to
  \<open>http.NewRequest\<close>, the header entries in the order they were set, the raw query when the
  code overwrites the one parsed from the URL, and the body. An \<open>http.Response\<close> is its
  status code and what \<open>io.ReadAll\<close> gets from its body.
\<close>

record Request =
  Method :: string
  URL :: string
  Header :: "(string \<times> string) list"
  RawQuery :: "string option"
  req_Body :: "string option"

record Response =
  StatusCode :: int
  resp_Body :: "error + string"

text \<open>
  Everything outside the package is a parameter. \<open>config_json k\<close> is what the \<open>k\<close>-th
  \<open>os.Open("config.json")\<close> of the run yields (counting from 0): an error, or the contents of
  the file. The others are library functions: the JSON codec at the types the package uses,
  URL parsing inside \<open>http.NewRequest\<close> (\<open>Some err\<close> when the URL does not parse),
  \<open>URL.Query\<close>, \<open>Values.Encode\<close>, and \<open>Client.Do\<close>, the server included.
\<close>

record world =
  config_json :: "nat \<Rightarrow> error + string"
  decode_Credentials :: "string \<Rightarrow> error + Credentials"
  url_Parse_error :: "string \<Rightarrow> error option"
  url_Query :: "string \<Rightarrow> Values"
  Values_Encode :: "Values \<Rightarrow> string"
  client_Do :: "Request \<Rightarrow> error + Response"
  json_Marshal :: "MarketOrderRequest \<Rightarrow> error + string"
  Unmarshal_RawPricingResponse :: "string \<Rightarrow> error + RawPricingResponse"
  Unmarshal_OrderResponse :: "string \<Rightarrow> error + OrderResponse"

text \<open>
  What a run does to the outside, in order. \<open>Invoke_placeMarketOrder\<close> is not an effect: it
  marks an entry into \<open>placeMarketOrder\<close> with the arguments of the call, so that a trace
  shows the invocations. \<open>Log\<close> is a line written by the \<open>log\<close> package.
\<close>

datatype event =
    OpenConfig
  | Do Request
  | Println string
  | Dump_PricingResponse "PricingResponse option"
  | Dump_OrderResponse "OrderResponse option"
  | Log string
  | Invoke_placeMarketOrder int string float32

text \<open>How a call ends: it returns, or \<open>log.Fatal\<close> ends the process, or it panics.\<close>

datatype 'a outcome = Returned 'a | Exited | Panicked string

definition bind :: "event list \<times> 'a outcome \<Rightarrow> (event list \<Rightarrow> 'a \<Rightarrow> event list \<times> 'b outcome)
    \<Rightarrow> event list \<times> 'b outcome" where
  "bind m k = (case m of
                 (tr, Returned a) \<Rightarrow> k tr a
               | (tr, Exited) \<Rightarrow> (tr, Exited)
               | (tr, Panicked msg) \<Rightarrow> (tr, Panicked msg))"

fun is_OpenConfig :: "event \<Rightarrow> bool" where
  "is_OpenConfig OpenConfig = True"
| "is_OpenConfig _ = False"

definition opens :: "event list \<Rightarrow> nat" where
  "opens tr = length (filter is_OpenConfig tr)"

fun invocations :: "event list \<Rightarrow> (int \<times> string \<times> float32) list" where
  "invocations [] = []"
| "invocations (Invoke_placeMarketOrder units instrument priceBound # tr) =
     (units, instrument, priceBound) # invocations tr"
| "invocations (_ # tr) = invocations tr"

fun requests :: "event list \<Rightarrow> Request list" where
  "requests [] = []"
| "requests (Do req # tr) = req # requests tr"
| "requests (_ # tr) = requests tr"

section \<open>The package's functions\<close>

definition getCreds :: "world \<Rightarrow> event list \<Rightarrow> event list \<times> Credentials outcome" where
  "getCreds w tr =
     (case config_json w (opens tr) of
        Inl err \<Rightarrow> (tr @ [OpenConfig, Log err], Exited)
      | Inr file \<Rightarrow>
          (case decode_Credentials w file of
             Inl err \<Rightarrow> (tr @ [OpenConfig, Log err], Exited)
           | Inr creds \<Rightarrow> (tr @ [OpenConfig], Returned creds)))"

text \<open>
  Lines 158 to 167 of \<open>getPrices\<close>: the URL given to \<open>http.NewRequest\<close>, and the request
  once the header and the query are set.
\<close>

definition pricingURL :: "Credentials \<Rightarrow> string" where
  "pricingURL creds = strings_Replace1 (baseURL @ pricingEndpoint) ''{accountID}'' (AccountID creds)"

definition pricingRequest :: "world \<Rightarrow> Credentials \<Rightarrow> string list \<Rightarrow> Request" where
  "pricingRequest w creds instruments =
     (let url = pricingURL creds;
          req = \<lparr>Method = ''GET'', URL = url, Header = [], RawQuery = None, req_Body = None\<rparr>;
          req = req\<lparr>Header := Header req @ [(''Authorization'', ''Bearer '' @ BearerToken creds)]\<rparr>;
          q = url_Query w url;
          q = Values_Add q ''instruments'' (strings_Join instruments '','')
      in req\<lparr>RawQuery := Some (Values_Encode w q)\<rparr>)"

definition getPrices :: "world \<Rightarrow> string list \<Rightarrow> event list
    \<Rightarrow> event list \<times> (PricingResponse option \<times> error option) outcome" where
  "getPrices w instruments tr =
     bind (getCreds w tr) (\<lambda>tr creds.
       case url_Parse_error w (pricingURL creds) of
         Some err \<Rightarrow> (tr, Returned (None, Some err))
       | None \<Rightarrow>
           (let req = pricingRequest w creds instruments;
                tr = tr @ [Do req]
            in case client_Do w req of
                 Inl err \<Rightarrow> (tr, Returned (None, Some err))
               | Inr resp \<Rightarrow>
                   (case resp_Body resp of
                      Inl err \<Rightarrow> (tr, Returned (None, Some err))
                    | Inr body \<Rightarrow>
                        if StatusCode resp \<noteq> 200
                        then (tr, Returned (None, Some (Sprintf_d (StatusCode resp) @
                                '' response code received, Prices API request not working as expected'')))
                        else (case Unmarshal_RawPricingResponse w body of
                                Inl err \<Rightarrow> (tr, Returned (None, Some err))
                              | Inr rawResponse \<Rightarrow>
                                  (case parseRawResponse rawResponse of
                                     (_, Some err) \<Rightarrow> (tr, Returned (None, Some err))
                                   | (response, None) \<Rightarrow> (tr, Returned (response, None)))))))"

text \<open>The composite literal of lines 201 to 210.\<close>

definition orderRequest :: "int \<Rightarrow> string \<Rightarrow> float32 \<Rightarrow> MarketOrderRequest" where
  "orderRequest units instrument priceBound =
     \<lparr>Order = \<lparr>Units = Sprintf_d units,
                order_Instrument = instrument,
                PriceBound = Sprintf_5f priceBound,
                TimeInForce = ''FOK'',
                order_Type = ''MARKET'',
                PositionFill = ''DEFAULT''\<rparr>\<rparr>"

text \<open>Lines 199 and 217 to 223 of \<open>placeMarketOrder\<close>: the URL and the request.\<close>

definition orderURL :: "Credentials \<Rightarrow> string" where
  "orderURL creds = strings_Replace1 (baseURL @ orderEndpoint) ''{accountID}'' (AccountID creds)"

definition orderHTTPRequest :: "Credentials \<Rightarrow> string \<Rightarrow> Request" where
  "orderHTTPRequest creds jsonBody =
     (let req = \<lparr>Method = ''POST'', URL = orderURL creds, Header = [], RawQuery = None,
                 req_Body = Some jsonBody\<rparr>;
          req = req\<lparr>Header := [(''Content-Type'', ''application/json'')]\<rparr>
      in req\<lparr>Header := Header req @ [(''Authorization'', ''Bearer '' @ BearerToken creds)]\<rparr>)"

definition placeMarketOrder :: "world \<Rightarrow> int \<Rightarrow> string \<Rightarrow> float32 \<Rightarrow> event list
    \<Rightarrow> event list \<times> (OrderResponse option \<times> error option) outcome" where
  "placeMarketOrder w units instrument priceBound tr =
     bind (getCreds w (tr @ [Invoke_placeMarketOrder units instrument priceBound])) (\<lambda>tr creds.
       case json_Marshal w (orderRequest units instrument priceBound) of
         Inl err \<Rightarrow> (tr, Returned (None, Some err))
       | Inr jsonBody \<Rightarrow>
           (case url_Parse_error w (orderURL creds) of
              Some err \<Rightarrow> (tr, Returned (None, Some err))
            | None \<Rightarrow>
                (let req = orderHTTPRequest creds jsonBody;
                     tr = tr @ [Do req]
                 in case client_Do w req of
                      Inl err \<Rightarrow> (tr, Returned (None, Some err))
                    | Inr resp \<Rightarrow>
                        (case resp_Body resp of
                           Inl err \<Rightarrow> (tr, Returned (None, Some err))
                         | Inr body \<Rightarrow>
                             if StatusCode resp \<noteq> 201
                             then (tr, Returned (None, Some (''unexpected status code: '' @
                                     Sprintf_d (StatusCode resp) @ '', body: '' @ body)))
                             else (case Unmarshal_OrderResponse w body of
                                     Inl err \<Rightarrow> (tr, Returned (None, Some err))
                                   | Inr orderResponse \<Rightarrow>
                                       (tr, Returned (Some orderResponse, None)))))))"

text \<open>Lines 267 to 272 of \<open>EntryPoint\<close>: what follows the call of \<open>placeMarketOrder\<close>.\<close>

definition report_order :: "event list \<Rightarrow> OrderResponse option \<times> error option
    \<Rightarrow> event list \<times> unit outcome" where
  "report_order tr r =
     (case r of (orderResponse, err) \<Rightarrow>
        (case err of
           Some e \<Rightarrow> (tr @ [Log (''Error placing market order: '' @ e)], Returned ())
         | None \<Rightarrow> (tr @ [Println ''Market order placed successfully.'',
                            Dump_OrderResponse orderResponse], Returned ())))"

text \<open>
  \<open>EntryPoint\<close>, from the empty trace. \<open>log.Fatalf\<close> ends the process; reading
  \<open>pricesResponse.Prices[0]\<close> panics on a nil pointer and on an empty slice.
\<close>

definition EntryPoint :: "world \<Rightarrow> event list \<times> unit outcome" where
  "EntryPoint w =
     (let instruments = [''GBP_USD'', ''EUR_GBP'', ''GBP_JPY'']
      in bind (getPrices w instruments []) (\<lambda>tr (pricesResponse, err).
           case err of
             Some e \<Rightarrow> (tr @ [Log (''Error retrieving prices: '' @ e)], Exited)
           | None \<Rightarrow>
               (let tr = tr @ [Println ''Prices retrieved successfully.'',
                               Dump_PricingResponse pricesResponse]
                in case pricesResponse of
                     None \<Rightarrow> (tr, Panicked ''runtime error: invalid memory address or nil pointer dereference'')
                   | Some response \<Rightarrow>
                       (case Prices response of
                          [] \<Rightarrow> (tr, Panicked ''runtime error: index out of range [0] with length 0'')
                        | price0 # _ \<Rightarrow>
                            if Tradeable price0
                            then bind (placeMarketOrder w 1 ''GBP_USD'' (Ask price0) tr) report_order
                            else (tr @ [Println ''Error executing market order! Instrument currently not tradeable.''],
                                  Returned ())))))"

section \<open>Example worlds\<close>

text \<open>
  Worlds for the concrete runs below: the configuration file is always there and decodes to
  \<open>demo_Credentials\<close>, every URL parses and has no query of its own, the server answers a
  \<open>GET\<close> with \<open>pricing\<close> and anything else with \<open>order\<close>, and a body with status 200 decodes
  to \<open>raw\<close>. The encoders are stand-ins that keep the fields readable: \<open>Values.Encode\<close> for
  the one key the package sets (escaping the comma as the library does), \<open>json.Marshal\<close> as
  a line of \<open>key=value\<close> pairs.
\<close>

definition demo_Credentials :: Credentials where
  "demo_Credentials = \<lparr>AccountID = ''101-004-0000001-001'', BearerToken = ''secret''\<rparr>"

definition demo_raw :: "string \<Rightarrow> bool \<Rightarrow> RawPricingResponse" where
  "demo_raw first tradeable =
     \<lparr>raw_Time = ''2024-01-01T00:00:00Z'',
      raw_Prices =
        [\<lparr>raw_Instrument = first, raw_Tradeable = tradeable,
          Bids = [\<lparr>level_Price = 0x3FA00000\<rparr>], Asks = [\<lparr>level_Price = 0x3FA147AE\<rparr>]\<rparr>,
         \<lparr>raw_Instrument = ''GBP_JPY'', raw_Tradeable = True,
          Bids = [\<lparr>level_Price = 0x433E0000\<rparr>], Asks = [\<lparr>level_Price = 0x433E8000\<rparr>]\<rparr>]\<rparr>"

definition demo_OrderResponse :: OrderResponse where
  "demo_OrderResponse =
     \<lparr>LastTransactionID = ''6'',
      OrderCreateTransaction =
        \<lparr>create_AccountID = ''101-004-0000001-001'', create_BatchID = ''5'', create_ID = ''5'',
         create_Instrument = ''GBP_USD'', create_PositionFill = ''DEFAULT'',
         create_Reason = ''CLIENT_ORDER'', create_Time = ''2024-01-01T00:00:01Z'',
         create_TimeInForce = ''FOK'', create_Type = ''MARKET_ORDER'', create_Units = ''1'',
         create_UserID = 7\<rparr>,
      OrderFillTransaction =
        \<lparr>AccountBalance = ''1000.0000'', fill_AccountID = ''101-004-0000001-001'',
         fill_BatchID = ''5'', Financing = ''0.0000'', fill_ID = ''6'',
         fill_Instrument = ''GBP_USD'', OrderID = ''5'', Pl = ''0.0000'', fill_Price = ''1.26000'',
         fill_Reason = ''MARKET_ORDER'', fill_Time = ''2024-01-01T00:00:01Z'',
         fill_TradeOpened = \<lparr>TradeID = ''6'', opened_Units = ''1''\<rparr>,
         fill_Type = ''ORDER_FILL'', fill_Units = ''1'', fill_UserID = 7\<rparr>,
      RelatedTransactionIDs = [''5'', ''6'']\<rparr>"

definition demo_world :: "Response \<Rightarrow> RawPricingResponse \<Rightarrow> Response \<Rightarrow> world" where
  "demo_world pricing raw order =
     \<lparr>config_json = (\<lambda>k. Inr ''config''),
      decode_Credentials = (\<lambda>file. Inr demo_Credentials),
      url_Parse_error = (\<lambda>url. None),
      url_Query = (\<lambda>url key. []),
      Values_Encode = (\<lambda>q. ''instruments='' @
         concat (map (\<lambda>c. if c = CHR '','' then ''%2C'' else [c]) (concat (q ''instruments'')))),
      client_Do = (\<lambda>req. if Method req = ''GET'' then Inr pricing else Inr order),
      json_Marshal = (\<lambda>r. Inr (''units='' @ Units (Order r) @ '' instrument='' @
         order_Instrument (Order r) @ '' priceBound='' @ PriceBound (Order r))),
      Unmarshal_RawPricingResponse = (\<lambda>body. Inr raw),
      Unmarshal_OrderResponse = (\<lambda>body. Inr demo_OrderResponse)\<rparr>"

definition ok_response :: "int \<Rightarrow> Response" where
  "ok_response code = \<lparr>StatusCode = code, resp_Body = Inr ''body''\<rparr>"


section \<open>Properties of \<open>parseRawResponse\<close>\<close>

lemma parse_loop_complete:
  assumes "list_all complete_entry raws" and "length prices = i + length raws"
  shows "\<exists>out. parse_loop i raws prices = Inr (take i prices @ out) \<and>
           length out = length raws \<and>
           (\<forall>k < length raws.
              Instrument (out ! k) = raw_Instrument (raws ! k) \<and>
              Tradeable (out ! k) = raw_Tradeable (raws ! k) \<and>
              (\<exists>b bs. Bids (raws ! k) = b # bs \<and> Bid (out ! k) = level_Price b) \<and>
              (\<exists>a as. Asks (raws ! k) = a # as \<and> Ask (out ! k) = level_Price a))"
  using assms
proof (induction raws arbitrary: i prices)
  case Nil
  then show ?case by simp
next
  case (Cons r raws)
  from Cons.prems(1) have cr: "complete_entry r" and rest: "list_all complete_entry raws"
    by simp_all
  from cr obtain b bs where rb: "Bids r = b # bs"
    by (cases "Bids r") (simp_all add: complete_entry_def)
  from cr obtain a as where ra: "Asks r = a # as"
    by (cases "Asks r") (simp_all add: complete_entry_def)
  define p where "p = \<lparr>Instrument = raw_Instrument r, Tradeable = raw_Tradeable r,
                        Bid = level_Price b, Ask = level_Price a\<rparr>"
  have step: "parse_loop i (r # raws) prices = parse_loop (Suc i) raws (prices[i := p])"
    by (simp add: rb ra p_def)
  have len: "length (prices[i := p]) = Suc i + length raws"
    using Cons.prems(2) by simp
  from Cons.IH [OF rest len] obtain out where
    res: "parse_loop (Suc i) raws (prices[i := p]) = Inr (take (Suc i) (prices[i := p]) @ out)"
    and lout: "length out = length raws"
    and flds: "\<forall>k < length raws.
              Instrument (out ! k) = raw_Instrument (raws ! k) \<and>
              Tradeable (out ! k) = raw_Tradeable (raws ! k) \<and>
              (\<exists>b bs. Bids (raws ! k) = b # bs \<and> Bid (out ! k) = level_Price b) \<and>
              (\<exists>a as. Asks (raws ! k) = a # as \<and> Ask (out ! k) = level_Price a)"
    by blast
  have ilt: "i < length prices" using Cons.prems(2) by simp
  have tk: "take (Suc i) (prices[i := p]) = take i prices @ [p]"
    using ilt by (simp add: take_Suc_conv_app_nth)
  have "parse_loop i (r # raws) prices = Inr (take i prices @ (p # out))"
    using step res tk by simp
  moreover have "length (p # out) = length (r # raws)" using lout by simp
  moreover have "\<forall>k < length (r # raws).
              Instrument ((p # out) ! k) = raw_Instrument ((r # raws) ! k) \<and>
              Tradeable ((p # out) ! k) = raw_Tradeable ((r # raws) ! k) \<and>
              (\<exists>b bs. Bids ((r # raws) ! k) = b # bs \<and> Bid ((p # out) ! k) = level_Price b) \<and>
              (\<exists>a as. Asks ((r # raws) ! k) = a # as \<and> Ask ((p # out) ! k) = level_Price a)"
  proof (intro allI impI)
    fix k assume "k < length (r # raws)"
    then show "Instrument ((p # out) ! k) = raw_Instrument ((r # raws) ! k) \<and>
              Tradeable ((p # out) ! k) = raw_Tradeable ((r # raws) ! k) \<and>
              (\<exists>b bs. Bids ((r # raws) ! k) = b # bs \<and> Bid ((p # out) ! k) = level_Price b) \<and>
              (\<exists>a as. Asks ((r # raws) ! k) = a # as \<and> Ask ((p # out) ! k) = level_Price a)"
      using flds rb ra by (cases k) (simp_all add: p_def)
  qed
  ultimately show ?case by blast
qed

lemma parse_loop_incomplete:
  assumes "\<not> list_all complete_entry raws"
  shows "\<exists>err. parse_loop i raws prices = Inl err"
  using assms
proof (induction raws arbitrary: i prices)
  case Nil
  then show ?case by simp
next
  case (Cons r raws)
  then show ?case
    by (cases "Bids r"; cases "Asks r") (simp_all add: complete_entry_def)
qed

lemma parse_loop_skip:
  assumes "list_all complete_entry good"
  shows "\<exists>prices'. parse_loop i (good @ raws) prices = parse_loop (i + length good) raws prices'"
  using assms
proof (induction good arbitrary: i prices)
  case Nil
  show ?case by (rule exI [of _ prices]) simp
next
  case (Cons g good)
  from Cons.prems have cg: "complete_entry g" and rest: "list_all complete_entry good"
    by simp_all
  from cg obtain b bs where gb: "Bids g = b # bs"
    by (cases "Bids g") (simp_all add: complete_entry_def)
  from cg obtain a as where ga: "Asks g = a # as"
    by (cases "Asks g") (simp_all add: complete_entry_def)
  define p where "p = \<lparr>Instrument = raw_Instrument g, Tradeable = raw_Tradeable g,
                        Bid = level_Price b, Ask = level_Price a\<rparr>"
  have "parse_loop i ((g # good) @ raws) prices = parse_loop (Suc i) (good @ raws) (prices[i := p])"
    by (simp add: gb ga p_def)
  moreover from Cons.IH [OF rest] obtain prices' where
    "parse_loop (Suc i) (good @ raws) (prices[i := p]) = parse_loop (Suc i + length good) raws prices'"
    by blast
  ultimately show ?case by auto
qed

lemma parse_loop_error_text:
  assumes "parse_loop i raws prices = Inl err"
  shows "err = ''No bid prices recieved.'' \<or> err = ''No ask prices recieved.''"
  using assms
proof (induction raws arbitrary: i prices)
  case Nil
  then show ?case by simp
next
  case (Cons r raws)
  show ?case
  proof (cases "Bids r")
    case Nil
    with Cons.prems show ?thesis by simp
  next
    case bids: (Cons b bs)
    show ?thesis
    proof (cases "Asks r")
      case Nil
      with bids Cons.prems show ?thesis by simp
    next
      case asks: (Cons a as)
      with bids Cons.prems Cons.IH show ?thesis by simp
    qed
  qed
qed

lemma list_all_complete_iff:
  "list_all complete_entry raws \<longleftrightarrow> (\<forall>rawPrice \<in> set raws. Bids rawPrice \<noteq> [] \<and> Asks rawPrice \<noteq> [])"
  by (simp add: list_all_iff complete_entry_def)

text \<open>
  C1. For every raw pricing payload in which every instrument entry has at least one bid
  level and at least one ask level, \<open>parseRawResponse\<close> succeeds (a response and a nil
  error) and returns one price record per input record, in the input's order: record \<open>k\<close>
  carries the instrument and the tradeable flag of entry \<open>k\<close>, its \<open>Bid\<close> is the price of
  the first listed bid level and its \<open>Ask\<close> the price of the first listed ask level; the
  \<open>Time\<close> field is copied.
\<close>

theorem parseRawResponse_complete:
  assumes "\<forall>rawPrice \<in> set (raw_Prices rawResponse). Bids rawPrice \<noteq> [] \<and> Asks rawPrice \<noteq> []"
  shows "\<exists>response.
           parseRawResponse rawResponse = (Some response, None) \<and>
           Time response = raw_Time rawResponse \<and>
           length (Prices response) = length (raw_Prices rawResponse) \<and>
           (\<forall>k < length (raw_Prices rawResponse).
              Instrument (Prices response ! k) = raw_Instrument (raw_Prices rawResponse ! k) \<and>
              Tradeable (Prices response ! k) = raw_Tradeable (raw_Prices rawResponse ! k) \<and>
              (\<exists>b bs. Bids (raw_Prices rawResponse ! k) = b # bs \<and>
                       Bid (Prices response ! k) = level_Price b) \<and>
              (\<exists>a as. Asks (raw_Prices rawResponse ! k) = a # as \<and>
                       Ask (Prices response ! k) = level_Price a))"
proof -
  let ?raws = "raw_Prices rawResponse"
  let ?init = "replicate (length ?raws) zero_Price"
  have all: "list_all complete_entry ?raws"
    using assms by (simp add: list_all_complete_iff)
  have len: "length ?init = 0 + length ?raws" by simp
  from parse_loop_complete [OF all len] obtain out where
    run: "parse_loop 0 ?raws ?init = Inr out" and lout: "length out = length ?raws"
    and flds: "\<forall>k < length ?raws.
              Instrument (out ! k) = raw_Instrument (?raws ! k) \<and>
              Tradeable (out ! k) = raw_Tradeable (?raws ! k) \<and>
              (\<exists>b bs. Bids (?raws ! k) = b # bs \<and> Bid (out ! k) = level_Price b) \<and>
              (\<exists>a as. Asks (?raws ! k) = a # as \<and> Ask (out ! k) = level_Price a)"
    by auto
  have "parseRawResponse rawResponse = (Some \<lparr>Time = raw_Time rawResponse, Prices = out\<rparr>, None)"
    using run by (simp add: parseRawResponse_def)
  then show ?thesis using lout flds by simp
qed

theorem parseRawResponse_complete_witness:
  "parseRawResponse
     \<lparr>raw_Time = ''2024-01-01T00:00:00Z'',
      raw_Prices =
        [\<lparr>raw_Instrument = ''GBP_USD'', raw_Tradeable = True,
          Bids = [\<lparr>level_Price = 0x3FA00000\<rparr>, \<lparr>level_Price = 0x3F9EB852\<rparr>],
          Asks = [\<lparr>level_Price = 0x3FA147AE\<rparr>]\<rparr>,
         \<lparr>raw_Instrument = ''EUR_GBP'', raw_Tradeable = False,
          Bids = [\<lparr>level_Price = 0x3F59999A\<rparr>],
          Asks = [\<lparr>level_Price = 0x3F5C28F6\<rparr>, \<lparr>level_Price = 0x3F600000\<rparr>]\<rparr>]\<rparr>
   = (Some \<lparr>Time = ''2024-01-01T00:00:00Z'',
            Prices =
              [\<lparr>Instrument = ''GBP_USD'', Tradeable = True, Bid = 0x3FA00000, Ask = 0x3FA147AE\<rparr>,
               \<lparr>Instrument = ''EUR_GBP'', Tradeable = False, Bid = 0x3F59999A, Ask = 0x3F5C28F6\<rparr>]\<rparr>,
      None)"
  using parseRawResponse_complete
    [of "\<lparr>raw_Time = ''2024-01-01T00:00:00Z'',
      raw_Prices =
        [\<lparr>raw_Instrument = ''GBP_USD'', raw_Tradeable = True,
          Bids = [\<lparr>level_Price = 0x3FA00000\<rparr>, \<lparr>level_Price = 0x3F9EB852\<rparr>],
          Asks = [\<lparr>level_Price = 0x3FA147AE\<rparr>]\<rparr>,
         \<lparr>raw_Instrument = ''EUR_GBP'', raw_Tradeable = False,
          Bids = [\<lparr>level_Price = 0x3F59999A\<rparr>],
          Asks = [\<lparr>level_Price = 0x3F5C28F6\<rparr>, \<lparr>level_Price = 0x3F600000\<rparr>]\<rparr>]\<rparr>"]
  by (simp add: parseRawResponse_def zero_Price_def)

text \<open>
  C2. For every raw pricing payload in which some instrument entry has no bid level or no
  ask level, \<open>parseRawResponse\<close> returns an error and a nil response pointer: no record
  reshaped before the failing entry reaches the caller.
\<close>

theorem parseRawResponse_incomplete:
  assumes "\<exists>rawPrice \<in> set (raw_Prices rawResponse). Bids rawPrice = [] \<or> Asks rawPrice = []"
  shows "\<exists>err. parseRawResponse rawResponse = (None, Some err)"
proof -
  have "\<not> list_all complete_entry (raw_Prices rawResponse)"
    using assms by (auto simp: list_all_complete_iff)
  from parse_loop_incomplete [OF this] obtain err where
    "parse_loop 0 (raw_Prices rawResponse)
       (replicate (length (raw_Prices rawResponse)) zero_Price) = Inl err"
    by blast
  then show ?thesis by (simp add: parseRawResponse_def)
qed

theorem parseRawResponse_incomplete_witness:
  "parseRawResponse
     \<lparr>raw_Time = ''2024-01-01T00:00:00Z'',
      raw_Prices =
        [\<lparr>raw_Instrument = ''GBP_USD'', raw_Tradeable = True,
          Bids = [\<lparr>level_Price = 0x3FA00000\<rparr>], Asks = [\<lparr>level_Price = 0x3FA147AE\<rparr>]\<rparr>,
         \<lparr>raw_Instrument = ''EUR_GBP'', raw_Tradeable = True,
          Bids = [\<lparr>level_Price = 0x3F59999A\<rparr>], Asks = []\<rparr>]\<rparr>
   = (None, Some ''No ask prices recieved.'')"
  using parseRawResponse_incomplete
    [of "\<lparr>raw_Time = ''2024-01-01T00:00:00Z'',
      raw_Prices =
        [\<lparr>raw_Instrument = ''GBP_USD'', raw_Tradeable = True,
          Bids = [\<lparr>level_Price = 0x3FA00000\<rparr>], Asks = [\<lparr>level_Price = 0x3FA147AE\<rparr>]\<rparr>,
         \<lparr>raw_Instrument = ''EUR_GBP'', raw_Tradeable = True,
          Bids = [\<lparr>level_Price = 0x3F59999A\<rparr>], Asks = []\<rparr>]\<rparr>"]
  by (simp add: parseRawResponse_def zero_Price_def)

text \<open>
  C10. \<open>parseRawResponse\<close> examines the entries in input order and stops at the first one
  with an empty side, testing the bids before the asks. When the entries before \<open>bad\<close> all
  have both sides and \<open>bad\<close> has no bid level, the error is \<open>No bid prices recieved.\<close>,
  whatever the asks of \<open>bad\<close> and whatever follows it; when \<open>bad\<close> has a bid level and no ask
  level, the error is \<open>No ask prices recieved.\<close>. For any payload at all the error, if there
  is one, is one of these two fixed texts, so it never names the failing instrument.
\<close>

theorem parseRawResponse_first_failure:
  assumes "raw_Prices rawResponse = good @ bad # rest"
    and "\<forall>rawPrice \<in> set good. Bids rawPrice \<noteq> [] \<and> Asks rawPrice \<noteq> []"
  shows "(Bids bad = [] \<longrightarrow>
            parseRawResponse rawResponse = (None, Some ''No bid prices recieved.'')) \<and>
         (Bids bad \<noteq> [] \<and> Asks bad = [] \<longrightarrow>
            parseRawResponse rawResponse = (None, Some ''No ask prices recieved.'')) \<and>
         (snd (parseRawResponse anyResponse) = None \<or>
          snd (parseRawResponse anyResponse) = Some ''No bid prices recieved.'' \<or>
          snd (parseRawResponse anyResponse) = Some ''No ask prices recieved.'')"
proof -
  let ?init = "replicate (length (raw_Prices rawResponse)) zero_Price"
  have "list_all complete_entry good"
    using assms(2) by (simp add: list_all_complete_iff)
  from parse_loop_skip [OF this] obtain prices' where
    skip: "parse_loop 0 (good @ bad # rest) ?init = parse_loop (0 + length good) (bad # rest) prices'"
    by blast
  have bid: "parseRawResponse rawResponse = (None, Some ''No bid prices recieved.'')"
    if "Bids bad = []"
    using that skip assms(1) by (simp add: parseRawResponse_def)
  have ask: "parseRawResponse rawResponse = (None, Some ''No ask prices recieved.'')"
    if "Bids bad \<noteq> []" and "Asks bad = []"
  proof -
    from that(1) obtain b bs where "Bids bad = b # bs" by (cases "Bids bad") simp_all
    then show ?thesis using that(2) skip assms(1) by (simp add: parseRawResponse_def)
  qed
  have texts: "snd (parseRawResponse anyResponse) = None \<or>
          snd (parseRawResponse anyResponse) = Some ''No bid prices recieved.'' \<or>
          snd (parseRawResponse anyResponse) = Some ''No ask prices recieved.''"
  proof (cases "parse_loop 0 (raw_Prices anyResponse)
                  (replicate (length (raw_Prices anyResponse)) zero_Price)")
    case (Inl err)
    from parse_loop_error_text [OF Inl] Inl show ?thesis
      by (auto simp: parseRawResponse_def)
  next
    case (Inr prices)
    then show ?thesis by (simp add: parseRawResponse_def)
  qed
  from bid ask texts show ?thesis by blast
qed

theorem parseRawResponse_first_failure_witness:
  "parseRawResponse
     \<lparr>raw_Time = ''2024-01-01T00:00:00Z'',
      raw_Prices =
        [\<lparr>raw_Instrument = ''GBP_USD'', raw_Tradeable = True,
          Bids = [\<lparr>level_Price = 0x3FA00000\<rparr>], Asks = [\<lparr>level_Price = 0x3FA147AE\<rparr>]\<rparr>,
         \<lparr>raw_Instrument = ''EUR_GBP'', raw_Tradeable = True, Bids = [], Asks = []\<rparr>,
         \<lparr>raw_Instrument = ''GBP_JPY'', raw_Tradeable = True,
          Bids = [\<lparr>level_Price = 0x3F59999A\<rparr>], Asks = []\<rparr>]\<rparr>
   = (None, Some ''No bid prices recieved.'')"
  using parseRawResponse_first_failure
    [of "\<lparr>raw_Time = ''2024-01-01T00:00:00Z'',
      raw_Prices =
        [\<lparr>raw_Instrument = ''GBP_USD'', raw_Tradeable = True,
          Bids = [\<lparr>level_Price = 0x3FA00000\<rparr>], Asks = [\<lparr>level_Price = 0x3FA147AE\<rparr>]\<rparr>,
         \<lparr>raw_Instrument = ''EUR_GBP'', raw_Tradeable = True, Bids = [], Asks = []\<rparr>,
         \<lparr>raw_Instrument = ''GBP_JPY'', raw_Tradeable = True,
          Bids = [\<lparr>level_Price = 0x3F59999A\<rparr>], Asks = []\<rparr>]\<rparr>"
        "[\<lparr>raw_Instrument = ''GBP_USD'', raw_Tradeable = True,
          Bids = [\<lparr>level_Price = 0x3FA00000\<rparr>], Asks = [\<lparr>level_Price = 0x3FA147AE\<rparr>]\<rparr>]"
        "\<lparr>raw_Instrument = ''EUR_GBP'', raw_Tradeable = True, Bids = [], Asks = []\<rparr>"
        "[\<lparr>raw_Instrument = ''GBP_JPY'', raw_Tradeable = True,
          Bids = [\<lparr>level_Price = 0x3F59999A\<rparr>], Asks = []\<rparr>]"]
  by simp

section \<open>Traces of the calls\<close>

lemma opens_append: "opens (a @ b) = opens a + opens b"
  by (simp add: opens_def)

lemma invocations_append: "invocations (a @ b) = invocations a @ invocations b"
  by (induction a rule: invocations.induct) simp_all

lemma requests_append: "requests (a @ b) = requests a @ requests b"
  by (induction a rule: requests.induct) simp_all

lemma getCreds_trace:
  "\<exists>logs. fst (getCreds w tr) = tr @ OpenConfig # logs \<and>
          opens logs = 0 \<and> invocations logs = [] \<and> requests logs = []"
  by (simp add: getCreds_def opens_def split: sum.splits)

lemma getCreds_Returned:
  assumes "getCreds w tr = (tr', Returned creds)"
  shows "tr' = tr @ [OpenConfig]"
  using assms by (simp add: getCreds_def split: sum.splits)

lemma getCreds_not_Panicked: "snd (getCreds w tr) \<noteq> Panicked msg"
  by (simp add: getCreds_def split: sum.splits)

lemma getPrices_trace:
  "\<exists>sfx. fst (getPrices w instruments tr) = tr @ OpenConfig # sfx \<and>
          opens sfx = 0 \<and> invocations sfx = [] \<and>
          (requests sfx = [] \<or> (\<exists>creds. requests sfx = [pricingRequest w creds instruments]))"
proof (cases "getCreds w tr")
  case (Pair tr1 out)
  show ?thesis
  proof (cases out)
    case (Returned creds)
    with Pair have "getCreds w tr = (tr1, Returned creds)" by simp
    from getCreds_Returned [OF this] have tr1: "tr1 = tr @ [OpenConfig]" .
    show ?thesis
      using Pair Returned tr1
      by (auto simp: getPrices_def bind_def Let_def opens_def
               split: option.splits sum.splits prod.splits)
  next
    case Exited
    with Pair getCreds_trace [of w tr] show ?thesis
      by (auto simp: getPrices_def bind_def)
  next
    case (Panicked msg)
    with Pair getCreds_not_Panicked [of w tr msg] show ?thesis by simp
  qed
qed

lemma placeMarketOrder_trace:
  "\<exists>sfx. fst (placeMarketOrder w units instrument priceBound tr) =
            tr @ Invoke_placeMarketOrder units instrument priceBound # OpenConfig # sfx \<and>
          opens sfx = 0 \<and> invocations sfx = [] \<and>
          (requests sfx = [] \<or>
           (\<exists>creds jsonBody. json_Marshal w (orderRequest units instrument priceBound) = Inr jsonBody \<and>
              requests sfx = [orderHTTPRequest creds jsonBody]))"
proof (cases "getCreds w (tr @ [Invoke_placeMarketOrder units instrument priceBound])")
  case (Pair tr1 out)
  show ?thesis
  proof (cases out)
    case (Returned creds)
    with Pair have "getCreds w (tr @ [Invoke_placeMarketOrder units instrument priceBound]) =
        (tr1, Returned creds)" by simp
    from getCreds_Returned [OF this]
    have tr1: "tr1 = tr @ [Invoke_placeMarketOrder units instrument priceBound, OpenConfig]"
      by simp
    show ?thesis
      using Pair Returned tr1
      by (auto simp: placeMarketOrder_def bind_def Let_def opens_def
               split: option.splits sum.splits prod.splits)
  next
    case Exited
    with Pair getCreds_trace [of w "tr @ [Invoke_placeMarketOrder units instrument priceBound]"]
    show ?thesis
      by (auto simp: placeMarketOrder_def bind_def)
  next
    case (Panicked msg)
    with Pair getCreds_not_Panicked [of w "tr @ [Invoke_placeMarketOrder units instrument priceBound]" msg]
    show ?thesis by simp
  qed
qed


lemma getCreds_loaded:
  assumes "config_json w (opens tr) = Inr file" and "decode_Credentials w file = Inr creds"
  shows "getCreds w tr = (tr @ [OpenConfig], Returned creds)"
  using assms by (simp add: getCreds_def)

lemma placeMarketOrder_sends:
  assumes "config_json w (opens tr) = Inr file \<and> decode_Credentials w file = Inr creds \<and>
      json_Marshal w (orderRequest units instrument priceBound) = Inr jsonBody \<and>
      url_Parse_error w (orderURL creds) = None"
  shows "\<exists>r. placeMarketOrder w units instrument priceBound tr =
           (tr @ [Invoke_placeMarketOrder units instrument priceBound, OpenConfig,
                  Do (orderHTTPRequest creds jsonBody)], Returned r)"
proof -
  have "opens (tr @ [Invoke_placeMarketOrder units instrument priceBound]) = opens tr"
    by (simp add: opens_def)
  with assms have "getCreds w (tr @ [Invoke_placeMarketOrder units instrument priceBound]) =
      (tr @ [Invoke_placeMarketOrder units instrument priceBound] @ [OpenConfig], Returned creds)"
    by (simp add: getCreds_loaded)
  with assms show ?thesis
    by (simp add: placeMarketOrder_def bind_def Let_def split: sum.splits)
qed

lemma EntryPoint_fetched:
  assumes "getPrices w [''GBP_USD'', ''EUR_GBP'', ''GBP_JPY''] [] = (tr, Returned (Some response, None))"
    and "Prices response = price0 # rest"
  shows "EntryPoint w =
           (if Tradeable price0
            then bind (placeMarketOrder w 1 ''GBP_USD'' (Ask price0)
                         (tr @ [Println ''Prices retrieved successfully.'',
                                Dump_PricingResponse (Some response)]))
                      report_order
            else (tr @ [Println ''Prices retrieved successfully.'',
                        Dump_PricingResponse (Some response),
                        Println ''Error executing market order! Instrument currently not tradeable.''],
                  Returned ()))"
  using assms
  by (auto simp: EntryPoint_def bind_def report_order_def split: prod.splits outcome.splits option.splits)

lemma bind_report_order_trace:
  "\<exists>tl. fst (bind (tr, out) report_order) = tr @ tl \<and>
         opens tl = 0 \<and> invocations tl = [] \<and> requests tl = []"
  by (cases out) (auto simp: bind_def report_order_def opens_def split: option.splits)

lemma EntryPoint_not_fetched:
  assumes "getPrices w [''GBP_USD'', ''EUR_GBP'', ''GBP_JPY''] [] = (tr, out)"
    and "\<nexists>response price0 rest. out = Returned (Some response, None) \<and> Prices response = price0 # rest"
  shows "\<exists>tl. fst (EntryPoint w) = tr @ tl \<and> opens tl = 0 \<and> invocations tl = [] \<and> requests tl = []"
proof (cases out)
  case (Returned r)
  obtain resp err where r: "r = (resp, err)" by (cases r)
  show ?thesis
  proof (cases err)
    case (Some e)
    with assms(1) Returned r show ?thesis
      by (simp add: EntryPoint_def bind_def opens_def)
  next
    case None
    show ?thesis
    proof (cases resp)
      case none: None
      with None assms(1) Returned r show ?thesis
        by (simp add: EntryPoint_def bind_def opens_def)
    next
      case (Some response)
      with assms(2) Returned r None have "Prices response = []"
        by (cases "Prices response") auto
      with Some None assms(1) Returned r show ?thesis
        by (simp add: EntryPoint_def bind_def opens_def)
    qed
  qed
next
  case Exited
  with assms(1) show ?thesis by (simp add: EntryPoint_def bind_def opens_def)
next
  case (Panicked msg)
  with assms(1) show ?thesis by (simp add: EntryPoint_def bind_def opens_def)
qed

lemma EntryPoint_tradeable_trace:
  assumes "getPrices w [''GBP_USD'', ''EUR_GBP'', ''GBP_JPY''] [] = (tr, Returned (Some response, None))"
    and "Prices response = price0 # rest"
    and "Tradeable price0"
  shows "\<exists>sfx. fst (EntryPoint w) =
             tr @ [Println ''Prices retrieved successfully.'', Dump_PricingResponse (Some response),
                   Invoke_placeMarketOrder 1 ''GBP_USD'' (Ask price0), OpenConfig] @ sfx \<and>
           opens sfx = 0 \<and> invocations sfx = [] \<and>
           (requests sfx = [] \<or>
            (\<exists>creds jsonBody.
               json_Marshal w (orderRequest 1 ''GBP_USD'' (Ask price0)) = Inr jsonBody \<and>
               requests sfx = [orderHTTPRequest creds jsonBody]))"
proof -
  let ?tr2 = "tr @ [Println ''Prices retrieved successfully.'', Dump_PricingResponse (Some response)]"
  obtain tr3 out3 where pm: "placeMarketOrder w 1 ''GBP_USD'' (Ask price0) ?tr2 = (tr3, out3)"
    by (cases "placeMarketOrder w 1 ''GBP_USD'' (Ask price0) ?tr2")
  from placeMarketOrder_trace [of w 1 "''GBP_USD''" "Ask price0" ?tr2] pm obtain s3 where
    tr3: "tr3 = ?tr2 @ Invoke_placeMarketOrder 1 ''GBP_USD'' (Ask price0) # OpenConfig # s3"
    and o3: "opens s3 = 0" and i3: "invocations s3 = []"
    and r3: "requests s3 = [] \<or>
            (\<exists>creds jsonBody.
               json_Marshal w (orderRequest 1 ''GBP_USD'' (Ask price0)) = Inr jsonBody \<and>
               requests s3 = [orderHTTPRequest creds jsonBody])"
    by auto
  from bind_report_order_trace [of tr3 out3] obtain tl where
    tl: "fst (bind (tr3, out3) report_order) = tr3 @ tl" and o4: "opens tl = 0"
    and i4: "invocations tl = []" and r4: "requests tl = []"
    by blast
  from EntryPoint_fetched [OF assms(1,2)] assms(3) pm tl
  have "fst (EntryPoint w) = tr3 @ tl" by simp
  with tr3 have "fst (EntryPoint w) =
      tr @ [Println ''Prices retrieved successfully.'', Dump_PricingResponse (Some response),
            Invoke_placeMarketOrder 1 ''GBP_USD'' (Ask price0), OpenConfig] @ (s3 @ tl)"
    by simp
  moreover have "opens (s3 @ tl) = 0" using o3 o4 by (simp add: opens_append)
  moreover have "invocations (s3 @ tl) = []" using i3 i4 by (simp add: invocations_append)
  moreover have "requests (s3 @ tl) = requests s3" using r4 by (simp add: requests_append)
  ultimately show ?thesis using r3 by metis
qed

text \<open>Every run, whatever the world: the trace starts with the configuration read of
  \<open>getPrices\<close>; there is a second read exactly when \<open>placeMarketOrder\<close> is invoked, and the
  only requests are the pricing request and, after it, the order request.\<close>

lemma EntryPoint_trace:
  "\<exists>sfx rs. fst (EntryPoint w) = OpenConfig # sfx \<and>
     (rs = [] \<or> (\<exists>creds. rs = [pricingRequest w creds [''GBP_USD'', ''EUR_GBP'', ''GBP_JPY'']])) \<and>
     ((opens sfx = 0 \<and> invocations sfx = [] \<and> requests sfx = rs) \<or>
      (\<exists>ask. opens sfx = 1 \<and> invocations sfx = [(1, ''GBP_USD'', ask)] \<and>
         (requests sfx = rs \<or>
          (\<exists>creds jsonBody.
             json_Marshal w (orderRequest 1 ''GBP_USD'' ask) = Inr jsonBody \<and>
             requests sfx = rs @ [orderHTTPRequest creds jsonBody]))))"
proof -
  let ?ins = "[''GBP_USD'', ''EUR_GBP'', ''GBP_JPY'']"
  obtain tr out where gp: "getPrices w ?ins [] = (tr, out)" by (cases "getPrices w ?ins []")
  from getPrices_trace [of w ?ins "[]"] gp obtain s1 where
    tr: "tr = OpenConfig # s1" and o1: "opens s1 = 0" and i1: "invocations s1 = []"
    and r1: "requests s1 = [] \<or> (\<exists>creds. requests s1 = [pricingRequest w creds ?ins])"
    by auto
  show ?thesis
  proof (cases "\<exists>response price0 rest. out = Returned (Some response, None) \<and> Prices response = price0 # rest")
    case False
    from EntryPoint_not_fetched [OF gp] False obtain tl where
      tl: "fst (EntryPoint w) = tr @ tl" and "opens tl = 0" and "invocations tl = []"
      and "requests tl = []"
      by blast
    then have "opens (s1 @ tl) = 0 \<and> invocations (s1 @ tl) = [] \<and> requests (s1 @ tl) = requests s1"
      using o1 i1 by (simp add: opens_append invocations_append requests_append)
    moreover have "fst (EntryPoint w) = OpenConfig # (s1 @ tl)" using tl tr by simp
    ultimately show ?thesis using r1 by blast
  next
    case True
    then obtain response price0 rest where
      out: "out = Returned (Some response, None)" and ps: "Prices response = price0 # rest"
      by blast
    from gp out have gp': "getPrices w ?ins [] = (tr, Returned (Some response, None))" by simp
    show ?thesis
    proof (cases "Tradeable price0")
      case False
      let ?tl = "[Println ''Prices retrieved successfully.'', Dump_PricingResponse (Some response),
                  Println ''Error executing market order! Instrument currently not tradeable.'']"
      from EntryPoint_fetched [OF gp' ps] False tr
      have "fst (EntryPoint w) = OpenConfig # (s1 @ ?tl)" by simp
      moreover have "opens (s1 @ ?tl) = 0 \<and> invocations (s1 @ ?tl) = [] \<and>
          requests (s1 @ ?tl) = requests s1"
        using o1 i1 by (simp add: opens_append invocations_append requests_append opens_def)
      ultimately show ?thesis using r1 by blast
    next
      case True
      let ?mid = "[Println ''Prices retrieved successfully.'', Dump_PricingResponse (Some response),
                   Invoke_placeMarketOrder 1 ''GBP_USD'' (Ask price0), OpenConfig]"
      from EntryPoint_tradeable_trace [OF gp' ps True] obtain s3 where
        ep: "fst (EntryPoint w) = tr @ ?mid @ s3"
        and o3: "opens s3 = 0" and i3: "invocations s3 = []"
        and r3: "requests s3 = [] \<or>
            (\<exists>creds jsonBody.
               json_Marshal w (orderRequest 1 ''GBP_USD'' (Ask price0)) = Inr jsonBody \<and>
               requests s3 = [orderHTTPRequest creds jsonBody])"
        by blast
      have e: "fst (EntryPoint w) = OpenConfig # (s1 @ ?mid @ s3)" using ep tr by simp
      have o: "opens (s1 @ ?mid @ s3) = 1"
        using o1 o3 by (simp add: opens_append) (simp add: opens_def)
      have i: "invocations (s1 @ ?mid @ s3) = [(1, ''GBP_USD'', Ask price0)]"
        using i1 i3 by (simp add: invocations_append)
      have r: "requests (s1 @ ?mid @ s3) = requests s1 @ requests s3"
        by (simp add: requests_append)
      from r3 r have "requests (s1 @ ?mid @ s3) = requests s1 \<or>
          (\<exists>creds jsonBody.
             json_Marshal w (orderRequest 1 ''GBP_USD'' (Ask price0)) = Inr jsonBody \<and>
             requests (s1 @ ?mid @ s3) = requests s1 @ [orderHTTPRequest creds jsonBody])"
        by auto
      with e o i r1 show ?thesis by blast
    qed
  qed
qed

section \<open>The order request\<close>

lemma decimal_digit: "n < 10 \<Longrightarrow> decimal n = [digit n]"
  by (simp add: decimal.simps)

lemma Sprintf_d_1: "Sprintf_d 1 = ''1''"
  by (simp add: Sprintf_d_def decimal_digit digit_def)

text \<open>The \<open>float32\<close> nearest to 1.2 has the bit pattern \<open>0x3F99999A\<close>: a clear sign bit, the
  biased exponent 127 and the mantissa \<open>0x19999A\<close>, that is \<open>10066330 / 2 ^ 23\<close>.\<close>

lemma f32_fields_1_2:
  "f32_neg 0x3F99999A = False" "f32_exp 0x3F99999A = 127" "f32_mant 0x3F99999A = 1677722"
  by (simp_all add: f32_neg_def f32_exp_def f32_mant_def)

lemma decimal_20000: "decimal 20000 = ''20000''"
  by (simp add: decimal.simps digit_def)

lemma Sprintf_5f_1_2: "Sprintf_5f 0x3F99999A = ''1.20000''"
proof -
  have "Sprintf_5f 0x3F99999A =
      decimal 1 @ ''.'' @ replicate (5 - length (decimal 20000)) CHR ''0'' @ decimal 20000"
    by (simp add: Sprintf_5f_def f32_fields_1_2 Let_def round_half_even_def)
  then show ?thesis by (simp add: decimal_20000 decimal_digit digit_def)
qed




text \<open>A number below \<open>10 ^ k\<close> has at most \<open>k\<close> decimal digits, so the fraction that
  \<open>%.5f\<close> prints, padded with zeros on the left, has exactly five.\<close>

lemma length_decimal_le:
  assumes "n < 10 ^ k" and "0 < k"
  shows "length (decimal n) \<le> k"
  using assms
proof (induction k arbitrary: n)
  case 0
  then show ?case by simp
next
  case (Suc k)
  show ?case
  proof (cases "n < 10")
    case True
    then show ?thesis by (simp add: decimal_digit)
  next
    case False
    then have unfold: "decimal n = decimal (n div 10) @ [digit (n mod 10)]"
      by (subst decimal.simps) simp
    from Suc.prems(1) have small: "n div 10 < 10 ^ k" by (simp add: less_mult_imp_div_less mult.commute)
    from False small have "0 < k" by (cases k) auto
    from Suc.IH [OF small this] unfold show ?thesis by simp
  qed
qed

lemma Sprintf_5f_five_decimals:
  assumes "f32_exp f \<noteq> 255"
  shows "\<exists>whole frac. Sprintf_5f f = whole @ ''.'' @ frac \<and> length frac = 5"
proof -
  define m where "m = (if f32_exp f = 0 then f32_mant f else f32_mant f + 2 ^ 23)"
  define e where "e = (if f32_exp f = 0 then 1 else f32_exp f)"
  define scaled where "scaled = (if 150 \<le> e then m * 2 ^ (e - 150) * 10 ^ 5
                          else round_half_even (m * 10 ^ 5) (2 ^ (150 - e)))"
  define frac where "frac = decimal (scaled mod 10 ^ 5)"
  have "scaled mod 10 ^ 5 < 10 ^ 5" by simp
  then have "length frac \<le> 5"
    unfolding frac_def by (rule length_decimal_le) simp
  then have five: "length (replicate (5 - length frac) CHR ''0'' @ frac) = 5" by simp
  have "Sprintf_5f f =
      ((if f32_neg f then ''-'' else []) @ decimal (scaled div 10 ^ 5)) @ ''.'' @
      (replicate (5 - length frac) CHR ''0'' @ frac)"
    using assms by (simp add: Sprintf_5f_def Let_def m_def e_def scaled_def frac_def)
  with five show ?thesis by blast
qed

lemma Method_requests [simp]:
  "Method (pricingRequest w creds instruments) = ''GET''"
  "Method (orderHTTPRequest creds jsonBody) = ''POST''"
  "req_Body (orderHTTPRequest creds jsonBody) = Some jsonBody"
  by (simp_all add: pricingRequest_def orderHTTPRequest_def Let_def)

lemma demo_orderHTTPRequest:
  "orderHTTPRequest demo_Credentials jsonBody =
     \<lparr>Method = ''POST'',
      URL = ''https://api-fxpractice.oanda.com/v3/accounts/101-004-0000001-001/orders'',
      Header = [(''Content-Type'', ''application/json''), (''Authorization'', ''Bearer secret'')],
      RawQuery = None, req_Body = Some jsonBody\<rparr>"
  by (simp add: orderHTTPRequest_def orderURL_def baseURL_def orderEndpoint_def
        demo_Credentials_def Let_def)

text \<open>
  C3. The order request that \<open>placeMarketOrder\<close> builds and serializes. For every unit
  count, instrument and price bound: \<open>units\<close> is \<open>%d\<close> of the unit count, and \<open>%d\<close> of 1 is
  the text \<open>1\<close>; \<open>priceBound\<close> is \<open>%.5f\<close> of the price bound, \<open>%.5f\<close> of 1.2 (the \<open>float32\<close>
  \<open>0x3F99999A\<close>) is the text \<open>1.20000\<close>, and for every finite price bound the text has
  exactly five characters after the decimal point; the instrument is copied as it is;
  \<open>timeInForce\<close>, \<open>type\<close> and \<open>positionFill\<close> are \<open>FOK\<close>, \<open>MARKET\<close> and \<open>DEFAULT\<close>. When the
  configuration file opens and decodes, \<open>json.Marshal\<close> succeeds and the order URL parses,
  \<open>placeMarketOrder\<close> sends exactly one request, the \<open>POST\<close> whose body is \<open>json.Marshal\<close> of
  that order request; in every other case it sends none.
\<close>

theorem orderRequest_serialization:
  "Units (Order (orderRequest units instrument priceBound)) = Sprintf_d units \<and>
   Sprintf_d 1 = ''1'' \<and>
   PriceBound (Order (orderRequest units instrument priceBound)) = Sprintf_5f priceBound \<and>
   Sprintf_5f 0x3F99999A = ''1.20000'' \<and>
   (f32_exp priceBound \<noteq> 255 \<longrightarrow>
      (\<exists>whole frac. PriceBound (Order (orderRequest units instrument priceBound)) =
                       whole @ ''.'' @ frac \<and> length frac = 5)) \<and>
   order_Instrument (Order (orderRequest units instrument priceBound)) = instrument \<and>
   TimeInForce (Order (orderRequest units instrument priceBound)) = ''FOK'' \<and>
   order_Type (Order (orderRequest units instrument priceBound)) = ''MARKET'' \<and>
   PositionFill (Order (orderRequest units instrument priceBound)) = ''DEFAULT'' \<and>
   (config_json w (opens tr) = Inr config \<and> decode_Credentials w config = Inr creds \<and>
    json_Marshal w (orderRequest units instrument priceBound) = Inr jsonBody \<and>
    url_Parse_error w (orderURL creds) = None \<longrightarrow>
      requests (fst (placeMarketOrder w units instrument priceBound tr)) =
        requests tr @ [orderHTTPRequest creds jsonBody] \<and>
      Method (orderHTTPRequest creds jsonBody) = ''POST'' \<and>
      req_Body (orderHTTPRequest creds jsonBody) = Some jsonBody) \<and>
   (requests (fst (placeMarketOrder w units instrument priceBound tr)) = requests tr \<or>
    (\<exists>creds' jsonBody'.
       json_Marshal w (orderRequest units instrument priceBound) = Inr jsonBody' \<and>
       requests (fst (placeMarketOrder w units instrument priceBound tr)) =
         requests tr @ [orderHTTPRequest creds' jsonBody']))"
proof -
  have fields: "Units (Order (orderRequest units instrument priceBound)) = Sprintf_d units"
    "PriceBound (Order (orderRequest units instrument priceBound)) = Sprintf_5f priceBound"
    "order_Instrument (Order (orderRequest units instrument priceBound)) = instrument"
    "TimeInForce (Order (orderRequest units instrument priceBound)) = ''FOK''"
    "order_Type (Order (orderRequest units instrument priceBound)) = ''MARKET''"
    "PositionFill (Order (orderRequest units instrument priceBound)) = ''DEFAULT''"
    by (simp_all add: orderRequest_def)
  have five: "f32_exp priceBound \<noteq> 255 \<longrightarrow>
      (\<exists>whole frac. PriceBound (Order (orderRequest units instrument priceBound)) =
                       whole @ ''.'' @ frac \<and> length frac = 5)"
    using Sprintf_5f_five_decimals [of priceBound] fields(2) by simp
  have sends: "config_json w (opens tr) = Inr config \<and> decode_Credentials w config = Inr creds \<and>
    json_Marshal w (orderRequest units instrument priceBound) = Inr jsonBody \<and>
    url_Parse_error w (orderURL creds) = None \<longrightarrow>
      requests (fst (placeMarketOrder w units instrument priceBound tr)) =
        requests tr @ [orderHTTPRequest creds jsonBody] \<and>
      Method (orderHTTPRequest creds jsonBody) = ''POST'' \<and>
      req_Body (orderHTTPRequest creds jsonBody) = Some jsonBody"
  proof
    assume a: "config_json w (opens tr) = Inr config \<and> decode_Credentials w config = Inr creds \<and>
      json_Marshal w (orderRequest units instrument priceBound) = Inr jsonBody \<and>
      url_Parse_error w (orderURL creds) = None"
    from placeMarketOrder_sends [OF a]
    obtain r where "placeMarketOrder w units instrument priceBound tr =
        (tr @ [Invoke_placeMarketOrder units instrument priceBound, OpenConfig,
               Do (orderHTTPRequest creds jsonBody)], Returned r)"
      by blast
    then show "requests (fst (placeMarketOrder w units instrument priceBound tr)) =
        requests tr @ [orderHTTPRequest creds jsonBody] \<and>
      Method (orderHTTPRequest creds jsonBody) = ''POST'' \<and>
      req_Body (orderHTTPRequest creds jsonBody) = Some jsonBody"
      by (simp add: requests_append)
  qed
  from placeMarketOrder_trace [of w units instrument priceBound tr] obtain sfx where
    tr: "fst (placeMarketOrder w units instrument priceBound tr) =
           tr @ Invoke_placeMarketOrder units instrument priceBound # OpenConfig # sfx"
    and rs: "requests sfx = [] \<or>
           (\<exists>creds jsonBody. json_Marshal w (orderRequest units instrument priceBound) = Inr jsonBody \<and>
              requests sfx = [orderHTTPRequest creds jsonBody])"
    by blast
  from tr have "requests (fst (placeMarketOrder w units instrument priceBound tr)) =
      requests tr @ requests sfx"
    by (simp add: requests_append)
  with rs have most: "requests (fst (placeMarketOrder w units instrument priceBound tr)) = requests tr \<or>
    (\<exists>creds' jsonBody'.
       json_Marshal w (orderRequest units instrument priceBound) = Inr jsonBody' \<and>
       requests (fst (placeMarketOrder w units instrument priceBound tr)) =
         requests tr @ [orderHTTPRequest creds' jsonBody'])"
    by auto
  from fields Sprintf_d_1 Sprintf_5f_1_2 five sends most show ?thesis by blast
qed

theorem orderRequest_serialization_witness:
  "requests (fst (placeMarketOrder
      (demo_world (ok_response 200) (demo_raw ''GBP_USD'' True) (ok_response 201))
      1 ''EUR_GBP'' 0x3F99999A [])) =
     [\<lparr>Method = ''POST'',
       URL = ''https://api-fxpractice.oanda.com/v3/accounts/101-004-0000001-001/orders'',
       Header = [(''Content-Type'', ''application/json''), (''Authorization'', ''Bearer secret'')],
       RawQuery = None,
       req_Body = Some ''units=1 instrument=EUR_GBP priceBound=1.20000''\<rparr>]"
proof -
  let ?w = "demo_world (ok_response 200) (demo_raw ''GBP_USD'' True) (ok_response 201)"
  let ?body = "''units=1 instrument=EUR_GBP priceBound=1.20000''"
  have cfg: "config_json ?w (opens []) = Inr ''config''"
    and dec: "decode_Credentials ?w ''config'' = Inr demo_Credentials"
    and url: "url_Parse_error ?w (orderURL demo_Credentials) = None"
    by (simp_all add: demo_world_def)
  note inst = orderRequest_serialization
    [where w = ?w and tr = "[]" and config = "''config''" and creds = demo_Credentials
       and units = 1 and instrument = "''EUR_GBP''" and priceBound = "0x3F99999A"
       and jsonBody = ?body]
  from inst have "Units (Order (orderRequest 1 ''EUR_GBP'' 0x3F99999A)) = ''1''"
    and "PriceBound (Order (orderRequest 1 ''EUR_GBP'' 0x3F99999A)) = ''1.20000''"
    and "order_Instrument (Order (orderRequest 1 ''EUR_GBP'' 0x3F99999A)) = ''EUR_GBP''"
    by simp_all
  then have marshal: "json_Marshal ?w (orderRequest 1 ''EUR_GBP'' 0x3F99999A) = Inr ?body"
    by (simp add: demo_world_def)
  from inst cfg dec url marshal
  have "requests (fst (placeMarketOrder ?w 1 ''EUR_GBP'' 0x3F99999A [])) =
      requests [] @ [orderHTTPRequest demo_Credentials ?body]"
    by blast
  then show ?thesis by (simp add: demo_orderHTTPRequest)
qed

section \<open>Status codes\<close>

lemma demo_getCreds:
  "getCreds (demo_world pricing raw order) tr = (tr @ [OpenConfig], Returned demo_Credentials)"
  by (simp add: getCreds_def demo_world_def)

lemma demo_world_fields [simp]:
  "url_Parse_error (demo_world pricing raw order) url = None"
  "client_Do (demo_world pricing raw order) (pricingRequest w creds instruments) = Inr pricing"
  "client_Do (demo_world pricing raw order) (orderHTTPRequest creds jsonBody) = Inr order"
  "Unmarshal_RawPricingResponse (demo_world pricing raw order) body = Inr raw"
  by (simp_all add: demo_world_def)

lemma Sprintf_d_500: "Sprintf_d 500 = ''500''"
  by (simp add: Sprintf_d_def decimal.simps digit_def)

lemma Sprintf_d_503: "Sprintf_d 503 = ''503''"
  by (simp add: Sprintf_d_def decimal.simps digit_def)

lemma Sprintf_d_400: "Sprintf_d 400 = ''400''"
  by (simp add: Sprintf_d_def decimal.simps digit_def)

text \<open>
  C4, as the claim states it, fails: \<open>io.ReadAll\<close> runs before the status check, so a
  response with status 500 whose body cannot be read makes \<open>getPrices\<close> return the read
  error, which does not carry the status code.
\<close>

theorem status_code_error_counterexample:
  "client_Do (demo_world \<lparr>StatusCode = 500, resp_Body = Inl ''unexpected EOF''\<rparr>
                (demo_raw ''GBP_USD'' True) (ok_response 201))
     (pricingRequest (demo_world \<lparr>StatusCode = 500, resp_Body = Inl ''unexpected EOF''\<rparr>
                        (demo_raw ''GBP_USD'' True) (ok_response 201))
        demo_Credentials [''GBP_USD'', ''EUR_GBP'', ''GBP_JPY''])
     = Inr \<lparr>StatusCode = 500, resp_Body = Inl ''unexpected EOF''\<rparr> \<and>
   snd (getPrices (demo_world \<lparr>StatusCode = 500, resp_Body = Inl ''unexpected EOF''\<rparr>
                     (demo_raw ''GBP_USD'' True) (ok_response 201))
          [''GBP_USD'', ''EUR_GBP'', ''GBP_JPY''] [])
     = Returned (None, Some ''unexpected EOF'') \<and>
   Sprintf_d 500 = ''500'' \<and>
   ''unexpected EOF'' \<noteq>
     Sprintf_d 500 @ '' response code received, Prices API request not working as expected''"
  by (simp add: getPrices_def bind_def demo_getCreds Let_def Sprintf_d_500)

text \<open>
  C4, amended. When \<open>Client.Do\<close> returns a response to the pricing request whose status
  code is not 200, \<open>getPrices\<close> returns a nil response and an error; when the body of that
  response was read without error, the error text is the status code in decimal followed by
  \<open> response code received, Prices API request not working as expected\<close>. When \<open>Client.Do\<close>
  returns a response to the order request whose status code is not 201,
  \<open>placeMarketOrder\<close> returns a nil response and an error; when the body was read without
  error, the error text is \<open>unexpected status code: \<close>, the status code in decimal,
  \<open>, body: \<close> and the body.
\<close>

theorem status_code_errors:
  "(getCreds w tr = (tr1, Returned creds) \<and>
    url_Parse_error w (pricingURL creds) = None \<and>
    client_Do w (pricingRequest w creds instruments) = Inr resp \<and>
    StatusCode resp \<noteq> 200 \<longrightarrow>
      (\<exists>err. snd (getPrices w instruments tr) = Returned (None, Some err)) \<and>
      (\<forall>body. resp_Body resp = Inr body \<longrightarrow>
         snd (getPrices w instruments tr) =
           Returned (None, Some (Sprintf_d (StatusCode resp) @
             '' response code received, Prices API request not working as expected'')))) \<and>
   (getCreds w (tr' @ [Invoke_placeMarketOrder units instrument priceBound]) = (tr2, Returned creds') \<and>
    json_Marshal w (orderRequest units instrument priceBound) = Inr jsonBody \<and>
    url_Parse_error w (orderURL creds') = None \<and>
    client_Do w (orderHTTPRequest creds' jsonBody) = Inr resp' \<and>
    StatusCode resp' \<noteq> 201 \<longrightarrow>
      (\<exists>err. snd (placeMarketOrder w units instrument priceBound tr') = Returned (None, Some err)) \<and>
      (\<forall>body. resp_Body resp' = Inr body \<longrightarrow>
         snd (placeMarketOrder w units instrument priceBound tr') =
           Returned (None, Some (''unexpected status code: '' @ Sprintf_d (StatusCode resp') @
             '', body: '' @ body))))"
proof (intro conjI impI)
  assume a: "getCreds w tr = (tr1, Returned creds) \<and>
    url_Parse_error w (pricingURL creds) = None \<and>
    client_Do w (pricingRequest w creds instruments) = Inr resp \<and>
    StatusCode resp \<noteq> 200"
  then show "\<exists>err. snd (getPrices w instruments tr) = Returned (None, Some err)"
    by (cases "resp_Body resp") (simp_all add: getPrices_def bind_def Let_def)
  from a show "\<forall>body. resp_Body resp = Inr body \<longrightarrow>
         snd (getPrices w instruments tr) =
           Returned (None, Some (Sprintf_d (StatusCode resp) @
             '' response code received, Prices API request not working as expected''))"
    by (simp add: getPrices_def bind_def Let_def)
next
  assume b: "getCreds w (tr' @ [Invoke_placeMarketOrder units instrument priceBound]) = (tr2, Returned creds') \<and>
    json_Marshal w (orderRequest units instrument priceBound) = Inr jsonBody \<and>
    url_Parse_error w (orderURL creds') = None \<and>
    client_Do w (orderHTTPRequest creds' jsonBody) = Inr resp' \<and>
    StatusCode resp' \<noteq> 201"
  then show "\<exists>err. snd (placeMarketOrder w units instrument priceBound tr') = Returned (None, Some err)"
    by (cases "resp_Body resp'") (simp_all add: placeMarketOrder_def bind_def Let_def)
  from b show "\<forall>body. resp_Body resp' = Inr body \<longrightarrow>
         snd (placeMarketOrder w units instrument priceBound tr') =
           Returned (None, Some (''unexpected status code: '' @ Sprintf_d (StatusCode resp') @
             '', body: '' @ body))"
    by (simp add: placeMarketOrder_def bind_def Let_def)
qed

theorem status_code_errors_witness:
  "snd (getPrices (demo_world (ok_response 503) (demo_raw ''GBP_USD'' True) (ok_response 400))
          [''GBP_USD'', ''EUR_GBP'', ''GBP_JPY''] [])
     = Returned (None, Some ''503 response code received, Prices API request not working as expected'') \<and>
   snd (placeMarketOrder (demo_world (ok_response 503) (demo_raw ''GBP_USD'' True) (ok_response 400))
          1 ''GBP_USD'' 0x3FA147AE [])
     = Returned (None, Some ''unexpected status code: 400, body: body'')"
  using status_code_errors
    [where w = "demo_world (ok_response 503) (demo_raw ''GBP_USD'' True) (ok_response 400)"
       and tr = "[]" and ?tr1.0 = "[OpenConfig]" and creds = demo_Credentials
       and instruments = "[''GBP_USD'', ''EUR_GBP'', ''GBP_JPY'']"
       and resp = "ok_response 503"
       and tr' = "[]" and units = 1 and instrument = "''GBP_USD''" and priceBound = "0x3FA147AE"
       and ?tr2.0 = "[Invoke_placeMarketOrder 1 ''GBP_USD'' 0x3FA147AE, OpenConfig]"
       and creds' = demo_Credentials
       and jsonBody =
        "''units='' @ Units (Order (orderRequest 1 ''GBP_USD'' 0x3FA147AE)) @ '' instrument='' @
         order_Instrument (Order (orderRequest 1 ''GBP_USD'' 0x3FA147AE)) @ '' priceBound='' @
         PriceBound (Order (orderRequest 1 ''GBP_USD'' 0x3FA147AE))"
       and resp' = "ok_response 400"]
  by (simp add: demo_getCreds ok_response_def Sprintf_d_503 Sprintf_d_400)
     (simp add: demo_world_def)

section \<open>The driver\<close>

lemma demo_getPrices:
  "getPrices (demo_world (ok_response 200) (demo_raw first tradeable) order) instruments [] =
   ([OpenConfig,
     Do (pricingRequest (demo_world (ok_response 200) (demo_raw first tradeable) order)
           demo_Credentials instruments)],
    Returned
      (Some \<lparr>Time = ''2024-01-01T00:00:00Z'',
             Prices =
               [\<lparr>Instrument = first, Tradeable = tradeable, Bid = 0x3FA00000, Ask = 0x3FA147AE\<rparr>,
                \<lparr>Instrument = ''GBP_JPY'', Tradeable = True, Bid = 0x433E0000, Ask = 0x433E8000\<rparr>]\<rparr>,
       None))"
  by (simp add: getPrices_def bind_def demo_getCreds Let_def ok_response_def demo_raw_def
        parseRawResponse_def zero_Price_def)

lemma getPrices_fetched_trace:
  assumes "getPrices w instruments [] = (tr, out)"
  shows "opens tr = 1 \<and> invocations tr = []"
proof -
  from getPrices_trace [of w instruments "[]"] assms obtain sfx where
    "tr = OpenConfig # sfx" "opens sfx = 0" "invocations sfx = []"
    by auto
  then show ?thesis by (simp add: opens_def)
qed




text \<open>
  C6. When the pricing fetch succeeds and the first price record is not tradeable, the run
  never invokes \<open>placeMarketOrder\<close>: after the fetch it prints the success line, dumps the
  prices, prints \<open>Error executing market order! Instrument currently not tradeable.\<close> and
  returns; it sends no request beyond those of the fetch and does not read the
  configuration again.
\<close>

theorem EntryPoint_not_tradeable:
  assumes "getPrices w [''GBP_USD'', ''EUR_GBP'', ''GBP_JPY''] [] = (tr, Returned (Some response, None))"
    and "Prices response = price0 # rest"
    and "\<not> Tradeable price0"
  shows "EntryPoint w =
           (tr @ [Println ''Prices retrieved successfully.'', Dump_PricingResponse (Some response),
                  Println ''Error executing market order! Instrument currently not tradeable.''],
            Returned ()) \<and>
         invocations (fst (EntryPoint w)) = [] \<and>
         requests (fst (EntryPoint w)) = requests tr \<and>
         opens (fst (EntryPoint w)) = 1"
proof -
  from EntryPoint_fetched [OF assms(1,2)] assms(3)
  have ep: "EntryPoint w =
           (tr @ [Println ''Prices retrieved successfully.'', Dump_PricingResponse (Some response),
                  Println ''Error executing market order! Instrument currently not tradeable.''],
            Returned ())"
    by simp
  from getPrices_fetched_trace [OF assms(1)] have "opens tr = 1" "invocations tr = []"
    by simp_all
  with ep show ?thesis
    by (simp add: invocations_append requests_append opens_append) (simp add: opens_def)
qed

theorem EntryPoint_not_tradeable_witness:
  "EntryPoint (demo_world (ok_response 200) (demo_raw ''GBP_USD'' False) (ok_response 201)) =
     ([OpenConfig,
       Do (pricingRequest (demo_world (ok_response 200) (demo_raw ''GBP_USD'' False) (ok_response 201))
             demo_Credentials [''GBP_USD'', ''EUR_GBP'', ''GBP_JPY'']),
       Println ''Prices retrieved successfully.'',
       Dump_PricingResponse
         (Some \<lparr>Time = ''2024-01-01T00:00:00Z'',
                Prices =
                  [\<lparr>Instrument = ''GBP_USD'', Tradeable = False, Bid = 0x3FA00000, Ask = 0x3FA147AE\<rparr>,
                   \<lparr>Instrument = ''GBP_JPY'', Tradeable = True, Bid = 0x433E0000, Ask = 0x433E8000\<rparr>]\<rparr>),
       Println ''Error executing market order! Instrument currently not tradeable.''],
      Returned ())"
  using EntryPoint_not_tradeable
    [OF demo_getPrices [of "''GBP_USD''" False "ok_response 201" "[''GBP_USD'', ''EUR_GBP'', ''GBP_JPY'']"],
     of "\<lparr>Instrument = ''GBP_USD'', Tradeable = False, Bid = 0x3FA00000, Ask = 0x3FA147AE\<rparr>"
        "[\<lparr>Instrument = ''GBP_JPY'', Tradeable = True, Bid = 0x433E0000, Ask = 0x433E8000\<rparr>]"]
  by simp

text \<open>
  C7, as the claim states it, fails: \<open>getPrices\<close> and \<open>placeMarketOrder\<close> each call
  \<open>getCreds\<close>, which opens \<open>config.json\<close> every time. In a run that fetches a tradeable
  first price the file is opened twice.
\<close>

theorem config_read_once_counterexample:
  "opens (fst (EntryPoint (demo_world (ok_response 200) (demo_raw ''GBP_USD'' True)
                             (ok_response 201))))
     = 2"
proof -
  from EntryPoint_tradeable_trace
    [OF demo_getPrices [of "''GBP_USD''" True "ok_response 201" "[''GBP_USD'', ''EUR_GBP'', ''GBP_JPY'']"],
     of "\<lparr>Instrument = ''GBP_USD'', Tradeable = True, Bid = 0x3FA00000, Ask = 0x3FA147AE\<rparr>"
        "[\<lparr>Instrument = ''GBP_JPY'', Tradeable = True, Bid = 0x433E0000, Ask = 0x433E8000\<rparr>]"]
  obtain sfx where
    "fst (EntryPoint (demo_world (ok_response 200) (demo_raw ''GBP_USD'' True) (ok_response 201))) =
       [OpenConfig,
        Do (pricingRequest (demo_world (ok_response 200) (demo_raw ''GBP_USD'' True) (ok_response 201))
              demo_Credentials [''GBP_USD'', ''EUR_GBP'', ''GBP_JPY''])] @
       [Println ''Prices retrieved successfully.'',
        Dump_PricingResponse
          (Some \<lparr>Time = ''2024-01-01T00:00:00Z'',
                 Prices =
                   [\<lparr>Instrument = ''GBP_USD'', Tradeable = True, Bid = 0x3FA00000, Ask = 0x3FA147AE\<rparr>,
                    \<lparr>Instrument = ''GBP_JPY'', Tradeable = True, Bid = 0x433E0000, Ask = 0x433E8000\<rparr>]\<rparr>),
        Invoke_placeMarketOrder 1 ''GBP_USD'' 0x3FA147AE, OpenConfig] @ sfx"
    and "opens sfx = 0"
    by auto
  then show ?thesis by (simp add: opens_append) (simp add: opens_def)
qed

text \<open>
  C7, amended. Credentials are loaded from the configuration file at the start of every API
  call and never written: a run opens the file first of all, for \<open>getPrices\<close>, and once more
  for each invocation of \<open>placeMarketOrder\<close>, of which there is at most one; so the file is
  read once in a run that attempts no order and twice in a run that attempts one.
\<close>

theorem config_read_per_call:
  "(\<exists>sfx. fst (EntryPoint w) = OpenConfig # sfx) \<and>
   opens (fst (EntryPoint w)) = 1 + length (invocations (fst (EntryPoint w))) \<and>
   length (invocations (fst (EntryPoint w))) \<le> 1"
proof -
  from EntryPoint_trace [of w] obtain sfx where
    ep: "fst (EntryPoint w) = OpenConfig # sfx"
    and c: "(opens sfx = 0 \<and> invocations sfx = []) \<or>
            (\<exists>ask. opens sfx = 1 \<and> invocations sfx = [(1, ''GBP_USD'', ask)])"
    by blast
  have o: "opens (OpenConfig # sfx) = 1 + opens sfx" by (simp add: opens_def)
  from c have "opens sfx = length (invocations sfx) \<and> length (invocations sfx) \<le> 1"
    by auto
  with ep o show ?thesis by simp
qed

text \<open>
  C8. In every run, every invocation of \<open>placeMarketOrder\<close> has the instrument \<open>GBP_USD\<close>, and
  every \<open>POST\<close> request sent carries the serialized order for \<open>GBP_USD\<close>, whatever the
  pricing response holds: the first price record supplies the tradeable flag and the price
  bound only.
\<close>

theorem order_instrument_constant:
  "(\<forall>inv \<in> set (invocations (fst (EntryPoint w))). fst (snd inv) = ''GBP_USD'') \<and>
   (\<forall>req \<in> set (requests (fst (EntryPoint w))). Method req = ''POST'' \<longrightarrow>
      (\<exists>ask jsonBody. json_Marshal w (orderRequest 1 ''GBP_USD'' ask) = Inr jsonBody \<and>
         req_Body req = Some jsonBody \<and>
         order_Instrument (Order (orderRequest 1 ''GBP_USD'' ask)) = ''GBP_USD''))"
proof -
  from EntryPoint_trace [of w] obtain sfx rs where
    ep: "fst (EntryPoint w) = OpenConfig # sfx"
    and rs: "rs = [] \<or> (\<exists>creds. rs = [pricingRequest w creds [''GBP_USD'', ''EUR_GBP'', ''GBP_JPY'']])"
    and c: "(opens sfx = 0 \<and> invocations sfx = [] \<and> requests sfx = rs) \<or>
      (\<exists>ask. opens sfx = 1 \<and> invocations sfx = [(1, ''GBP_USD'', ask)] \<and>
         (requests sfx = rs \<or>
          (\<exists>creds jsonBody.
             json_Marshal w (orderRequest 1 ''GBP_USD'' ask) = Inr jsonBody \<and>
             requests sfx = rs @ [orderHTTPRequest creds jsonBody])))"
    by blast
  have gets: "\<forall>req \<in> set rs. Method req \<noteq> ''POST''"
    using rs by auto
  have inv: "\<forall>inv \<in> set (invocations sfx). fst (snd inv) = ''GBP_USD''"
    using c by auto
  have posts: "\<forall>req \<in> set (requests sfx). Method req = ''POST'' \<longrightarrow>
      (\<exists>ask jsonBody. json_Marshal w (orderRequest 1 ''GBP_USD'' ask) = Inr jsonBody \<and>
         req_Body req = Some jsonBody)"
  proof (intro ballI impI)
    fix req assume req: "req \<in> set (requests sfx)" and post: "Method req = ''POST''"
    from req post gets have "req \<notin> set rs" by blast
    with req c obtain ask creds jsonBody where
      m: "json_Marshal w (orderRequest 1 ''GBP_USD'' ask) = Inr jsonBody"
      and "requests sfx = rs @ [orderHTTPRequest creds jsonBody]"
      by auto
    with req \<open>req \<notin> set rs\<close> have "req = orderHTTPRequest creds jsonBody" by simp
    then have "req_Body req = Some jsonBody" by simp
    with m show "\<exists>ask jsonBody. json_Marshal w (orderRequest 1 ''GBP_USD'' ask) = Inr jsonBody \<and>
         req_Body req = Some jsonBody"
      by blast
  qed
  have "order_Instrument (Order (orderRequest 1 ''GBP_USD'' ask)) = ''GBP_USD''" for ask
    by (simp add: orderRequest_def)
  with ep inv posts show ?thesis by simp
qed

theorem order_instrument_constant_witness:
  "getPrices (demo_world (ok_response 200) (demo_raw ''EUR_GBP'' True) (ok_response 201))
     [''GBP_USD'', ''EUR_GBP'', ''GBP_JPY''] [] =
   ([OpenConfig,
     Do (pricingRequest (demo_world (ok_response 200) (demo_raw ''EUR_GBP'' True) (ok_response 201))
           demo_Credentials [''GBP_USD'', ''EUR_GBP'', ''GBP_JPY''])],
    Returned
      (Some \<lparr>Time = ''2024-01-01T00:00:00Z'',
             Prices =
               [\<lparr>Instrument = ''EUR_GBP'', Tradeable = True, Bid = 0x3FA00000, Ask = 0x3FA147AE\<rparr>,
                \<lparr>Instrument = ''GBP_JPY'', Tradeable = True, Bid = 0x433E0000, Ask = 0x433E8000\<rparr>]\<rparr>,
       None)) \<and>
   invocations (fst (EntryPoint (demo_world (ok_response 200) (demo_raw ''EUR_GBP'' True)
                                   (ok_response 201))))
     = [(1, ''GBP_USD'', 0x3FA147AE)]"
proof -
  let ?w = "demo_world (ok_response 200) (demo_raw ''EUR_GBP'' True) (ok_response 201)"
  from EntryPoint_tradeable_trace
    [OF demo_getPrices [of "''EUR_GBP''" True "ok_response 201" "[''GBP_USD'', ''EUR_GBP'', ''GBP_JPY'']"],
     of "\<lparr>Instrument = ''EUR_GBP'', Tradeable = True, Bid = 0x3FA00000, Ask = 0x3FA147AE\<rparr>"
        "[\<lparr>Instrument = ''GBP_JPY'', Tradeable = True, Bid = 0x433E0000, Ask = 0x433E8000\<rparr>]"]
  obtain sfx where
    tr: "fst (EntryPoint ?w) =
       [OpenConfig,
        Do (pricingRequest ?w demo_Credentials [''GBP_USD'', ''EUR_GBP'', ''GBP_JPY''])] @
       [Println ''Prices retrieved successfully.'',
        Dump_PricingResponse
          (Some \<lparr>Time = ''2024-01-01T00:00:00Z'',
                 Prices =
                   [\<lparr>Instrument = ''EUR_GBP'', Tradeable = True, Bid = 0x3FA00000, Ask = 0x3FA147AE\<rparr>,
                    \<lparr>Instrument = ''GBP_JPY'', Tradeable = True, Bid = 0x433E0000, Ask = 0x433E8000\<rparr>]\<rparr>),
        Invoke_placeMarketOrder 1 ''GBP_USD'' 0x3FA147AE, OpenConfig] @ sfx"
    and i: "invocations sfx = []"
    by auto
  from tr i have "invocations (fst (EntryPoint ?w)) = [(1, ''GBP_USD'', 0x3FA147AE)]"
    by (simp add: invocations_append)
  moreover from order_instrument_constant [of ?w]
  have "\<forall>inv \<in> set (invocations (fst (EntryPoint ?w))). fst (snd inv) = ''GBP_USD''"
    by blast
  ultimately show ?thesis by (simp add: demo_getPrices)
qed

text \<open>
  C9. \<open>getPrices\<close> does not validate its \<open>instruments\<close> argument. Once the credentials are
  loaded and the URL parses, neither of which depends on the instruments, the next thing
  the call does for any list of instruments is to send the request, whose query is the
  encoding of the URL's own values with the comma-join of the list added under the key
  \<open>instruments\<close>; the join of the empty list is the empty string. Whether a request is sent
  at all is the same for any two lists of instruments.
\<close>

theorem getPrices_no_instrument_validation:
  "(getCreds w tr = (tr1, Returned creds) \<and> url_Parse_error w (pricingURL creds) = None \<longrightarrow>
      (\<exists>out. getPrices w instruments tr = (tr1 @ [Do (pricingRequest w creds instruments)], out)) \<and>
      RawQuery (pricingRequest w creds instruments) =
        Some (Values_Encode w (Values_Add (url_Query w (pricingURL creds)) ''instruments''
                (strings_Join instruments '','')))) \<and>
   Values_Add q ''instruments'' (strings_Join instruments '','') ''instruments'' =
     q ''instruments'' @ [strings_Join instruments '',''] \<and>
   strings_Join [] '','' = [] \<and>
   ((requests (fst (getPrices w instruments tr)) = requests tr) =
    (requests (fst (getPrices w instruments' tr)) = requests tr))"
proof (intro conjI impI)
  assume a: "getCreds w tr = (tr1, Returned creds) \<and> url_Parse_error w (pricingURL creds) = None"
  then show "\<exists>out. getPrices w instruments tr = (tr1 @ [Do (pricingRequest w creds instruments)], out)"
    by (simp add: getPrices_def bind_def Let_def split: sum.splits prod.splits option.splits)
  show "RawQuery (pricingRequest w creds instruments) =
        Some (Values_Encode w (Values_Add (url_Query w (pricingURL creds)) ''instruments''
                (strings_Join instruments '','')))"
    by (simp add: pricingRequest_def Let_def)
next
  show "Values_Add q ''instruments'' (strings_Join instruments '','') ''instruments'' =
     q ''instruments'' @ [strings_Join instruments '','']"
    by (simp add: Values_Add_def)
next
  show "strings_Join [] '','' = []" by simp
next
  have sent: "(requests (fst (getPrices w ins tr)) = requests tr) =
      (\<forall>tr1 creds. getCreds w tr = (tr1, Returned creds) \<longrightarrow> url_Parse_error w (pricingURL creds) \<noteq> None)"
    for ins
  proof (cases "getCreds w tr")
    case (Pair tr1 out)
    from getCreds_trace [of w tr] Pair have r1: "requests tr1 = requests tr"
      by (auto simp: requests_append)
    show ?thesis
    proof (cases out)
      case (Returned creds)
      with Pair r1 show ?thesis
        by (auto simp: getPrices_def bind_def Let_def requests_append
                 split: sum.splits prod.splits option.splits)
    next
      case Exited
      with Pair r1 show ?thesis by (simp add: getPrices_def bind_def)
    next
      case (Panicked msg)
      with Pair r1 show ?thesis by (simp add: getPrices_def bind_def)
    qed
  qed
  show "(requests (fst (getPrices w instruments tr)) = requests tr) =
    (requests (fst (getPrices w instruments' tr)) = requests tr)"
    by (simp only: sent)
qed

lemma demo_pricingRequest:
  "pricingRequest (demo_world pricing raw order) demo_Credentials instruments =
     \<lparr>Method = ''GET'',
      URL = ''https://api-fxpractice.oanda.com/v3/accounts/101-004-0000001-001/pricing'',
      Header = [(''Authorization'', ''Bearer secret'')],
      RawQuery = Some (''instruments='' @
         concat (map (\<lambda>c. if c = CHR '','' then ''%2C'' else [c]) (strings_Join instruments '',''))),
      req_Body = None\<rparr>"
  by (simp add: pricingRequest_def pricingURL_def baseURL_def pricingEndpoint_def
        demo_Credentials_def Values_Add_def demo_world_def Let_def)

theorem getPrices_no_instrument_validation_witness:
  "fst (getPrices (demo_world (ok_response 200) (demo_raw ''GBP_USD'' True) (ok_response 201)) [] []) =
     [OpenConfig,
      Do \<lparr>Method = ''GET'',
          URL = ''https://api-fxpractice.oanda.com/v3/accounts/101-004-0000001-001/pricing'',
          Header = [(''Authorization'', ''Bearer secret'')],
          RawQuery = Some ''instruments='', req_Body = None\<rparr>] \<and>
   RawQuery (pricingRequest (demo_world (ok_response 200) (demo_raw ''GBP_USD'' True) (ok_response 201))
               demo_Credentials [''GBP_USD'', [], ''GBP_JPY''])
     = Some ''instruments=GBP_USD%2C%2CGBP_JPY''"
proof -
  let ?w = "demo_world (ok_response 200) (demo_raw ''GBP_USD'' True) (ok_response 201)"
  have creds: "getCreds ?w [] = ([OpenConfig], Returned demo_Credentials)"
    using demo_getCreds [of "ok_response 200" "demo_raw ''GBP_USD'' True" "ok_response 201" "[]"]
    by simp
  have url: "url_Parse_error ?w (pricingURL demo_Credentials) = None" by simp
  from getPrices_no_instrument_validation
    [where w = ?w and tr = "[]" and ?tr1.0 = "[OpenConfig]" and creds = demo_Credentials
       and instruments = "[]"]
    creds url
  obtain out where "getPrices ?w [] [] = ([OpenConfig] @ [Do (pricingRequest ?w demo_Credentials [])], out)"
    by blast
  then have "fst (getPrices ?w [] []) = [OpenConfig, Do (pricingRequest ?w demo_Credentials [])]"
    by simp
  then show ?thesis by (simp add: demo_pricingRequest)
qed

end
